theory Spec2Isabelle
  imports Main "HOL-Library.Char_ord" "HOL-Library.List_Lexorder" "HOL-Library.Sublist"
    "HOL-Library.Multiset"
begin

section \<open>Excel DB Diff: a model of \<open>src/main.py\<close>\<close>

text \<open>
  The program compares two Excel workbooks sheet by sheet. Its own code (\<open>load_index_map\<close>,
  \<open>_drop_unnamed\<close>, \<open>compare_excels\<close> with the nested \<open>filter_sheets\<close>) is translated
  statement by statement. The pandas operations it calls (\<open>set_index\<close>, \<open>fillna\<close>,
  \<open>Index.equals\<close>, \<open>DataFrame.compare\<close>, \<open>reset_index\<close>, \<open>merge\<close>) are modelled on
  tables of cells, each with a comment saying which pandas behaviour it stands for.

  Scope of the model: Python strings are \<open>string\<close> (ASCII text); a cell is missing
  (\<open>NaN\<close>), a text or a number (one numeric type, no dtypes); column labels are texts;
  a YAML value is a scalar (null, boolean, integer, text) or a list of scalars.
\<close>

subsection \<open>Cells, tables and data frames\<close>

datatype cell = NaN | Str string | Num int

text \<open>What \<open>pd.read_excel\<close> returns: the header row and the data rows.\<close>

record table =
  tcolumns :: "string list"
  trows :: "cell list list"

text \<open>
  A DataFrame: column labels, the names of the index levels (\<open>None\<close> for the unnamed
  default index) and, per row, the row's index value (one cell per level) with its cells.
  The label type is a parameter: \<open>string\<close> for an ordinary frame, a pair for the
  two-level columns that \<open>DataFrame.compare\<close> builds.
\<close>

record 'l frame =
  columns :: "'l list"
  index_names :: "string option list"
  body :: "(cell list \<times> cell list) list"

definition index :: "'l frame \<Rightarrow> cell list list" where
  "index df = map fst (body df)"

definition rows :: "'l frame \<Rightarrow> cell list list" where
  "rows df = map snd (body df)"

text \<open>A fresh frame has the default \<open>RangeIndex\<close>: row \<open>i\<close> is identified by \<open>i\<close>.\<close>

definition range_index :: "nat \<Rightarrow> cell list list" where
  "range_index n = map (\<lambda>i. [Num (int i)]) [0..<n]"

definition DataFrame :: "table \<Rightarrow> string frame" where
  "DataFrame t = \<lparr>columns = tcolumns t, index_names = [None],
     body = zip (range_index (length (trows t))) (trows t)\<rparr>"

text \<open>\<open>df.empty\<close>: some axis has length 0.\<close>

definition empty_frame :: "'l frame \<Rightarrow> bool" where
  "empty_frame df \<longleftrightarrow> columns df = [] \<or> body df = []"

text \<open>The cell of a row under a column label; a label that is not there reads as missing.\<close>

definition cell_at :: "'l list \<Rightarrow> cell list \<Rightarrow> 'l \<Rightarrow> cell" where
  "cell_at cols r c = (case map_of (zip cols r) c of Some v \<Rightarrow> v | None \<Rightarrow> NaN)"

text \<open>\<open>df.loc[:, mask]\<close>: keep the cells of the columns that satisfy \<open>keep\<close>.\<close>

definition select_cells :: "('l \<Rightarrow> bool) \<Rightarrow> 'l list \<Rightarrow> cell list \<Rightarrow> cell list" where
  "select_cells keep cols r = map snd (filter (\<lambda>(c, v). keep c) (zip cols r))"

subsection \<open>Exceptions and YAML values\<close>

datatype exn = ReadError | KeyError | ValueError | MergeError

datatype yscalar = YNull | YBool bool | YInt int | YStr string

datatype yval = Scalar yscalar | YList "yscalar list"

text \<open>Python's truth value of the configured key: \<open>if index_col:\<close>.\<close>

fun truthy :: "yval \<Rightarrow> bool" where
  "truthy (Scalar YNull) = False"
| "truthy (Scalar (YBool b)) = b"
| "truthy (Scalar (YInt i)) = (i \<noteq> 0)"
| "truthy (Scalar (YStr s)) = (s \<noteq> [])"
| "truthy (YList ks) = (ks \<noteq> [])"

text \<open>\<open>str(x)\<close> on a YAML scalar.\<close>

definition digit_char :: "nat \<Rightarrow> char" where
  "digit_char d = char_of (of_char CHR ''0'' + d)"

fun digits :: "nat \<Rightarrow> string" where
  "digits n = (if n < 10 then [digit_char n] else digits (n div 10) @ [digit_char (n mod 10)])"

fun str :: "yscalar \<Rightarrow> string" where
  "str YNull = ''None''"
| "str (YBool b) = (if b then ''True'' else ''False'')"
| "str (YInt i) = (if i < 0 then CHR ''-'' # digits (nat (- i)) else digits (nat i))"
| "str (YStr s) = s"

text \<open>\<open>str.lower()\<close> on ASCII text.\<close>

definition lower_char :: "char \<Rightarrow> char" where
  "lower_char c = (if CHR ''A'' \<le> c \<and> c \<le> CHR ''Z'' then char_of (of_char c + (32::nat)) else c)"

definition lower :: "string \<Rightarrow> string" where
  "lower s = map lower_char s"

subsection \<open>\<open>load_index_map\<close> and the key lookup\<close>

text \<open>
  A Python dict is an association list in insertion order; \<open>d.get(k)\<close> gives the value
  or \<open>None\<close>. The dict comprehension of \<open>load_index_map\<close> inserts the lowered keys in
  order, a later item replacing an earlier one with the same lowered key.
\<close>

type_synonym 'k dict = "('k \<times> yval) list"

definition dict_get :: "'k dict \<Rightarrow> 'k \<Rightarrow> yval" where
  "dict_get d k = (case map_of d k of Some v \<Rightarrow> v | None \<Rightarrow> Scalar YNull)"

fun dict_set :: "'k dict \<Rightarrow> 'k \<Rightarrow> yval \<Rightarrow> 'k dict" where
  "dict_set [] k v = [(k, v)]"
| "dict_set ((k', v') # d) k v = (if k' = k then (k', v) # d else (k', v') # dict_set d k v)"

record index_map =
  raw :: "yscalar dict"
  lowered :: "string dict"

text \<open>
  \<open>data = yaml.safe_load(f) or {}\<close>: an empty document loads as \<open>None\<close>.
\<close>

definition load_index_map :: "yscalar dict option \<Rightarrow> index_map" where
  "load_index_map loaded =
     (let data = (case loaded of None \<Rightarrow> [] | Some d \<Rightarrow> d)
      in \<lparr>raw = data,
          lowered = foldl (\<lambda>acc (k, v). dict_set acc (lower (str k)) v) [] data\<rparr>)"

text \<open>
  Lines 82 to 84: \<open>index_col = raw_map.get(sheet)\<close>, and
  \<open>lower_map.get(sheet.lower())\<close> when that is \<open>None\<close>.
\<close>

definition resolve_index_col :: "index_map \<Rightarrow> string \<Rightarrow> yval" where
  "resolve_index_col im sheet =
     (let index_col = dict_get (raw im) (YStr sheet)
      in if index_col = Scalar YNull then dict_get (lowered im) (lower sheet) else index_col)"

subsection \<open>\<open>filter_sheets\<close> and the sheet sets\<close>

text \<open>
  \<open>{s for s in xls.sheet_names if not (doc_prefix and s.startswith(doc_prefix))}\<close>;
  \<open>doc_prefix\<close> may be \<open>None\<close> or empty, both false in Python.
\<close>

definition excluded :: "string option \<Rightarrow> string \<Rightarrow> bool" where
  "excluded doc_prefix s =
     (case doc_prefix of None \<Rightarrow> False | Some p \<Rightarrow> p \<noteq> [] \<and> prefix p s)"

definition filter_sheets :: "string option \<Rightarrow> string list \<Rightarrow> string set" where
  "filter_sheets doc_prefix sheet_names = set (filter (\<lambda>s. \<not> excluded doc_prefix s) sheet_names)"

definition common_sheets :: "string option \<Rightarrow> string list \<Rightarrow> string list \<Rightarrow> string list" where
  "common_sheets doc_prefix names1 names2 =
     sorted_list_of_set (filter_sheets doc_prefix names1 \<inter> filter_sheets doc_prefix names2)"

definition only_sheets :: "string option \<Rightarrow> string list \<Rightarrow> string list \<Rightarrow> string list" where
  "only_sheets doc_prefix names1 names2 =
     sorted_list_of_set (filter_sheets doc_prefix names1 - filter_sheets doc_prefix names2)"

subsection \<open>\<open>_drop_unnamed\<close> and the key check\<close>

text \<open>
  An empty frame is returned as it is; otherwise the columns whose label matches the
  regular expression \<open>^Unnamed\<close> (the label starts with \<open>Unnamed\<close>) are dropped.
\<close>

definition drop_unnamed :: "string frame \<Rightarrow> string frame" where
  "drop_unnamed df =
     (if empty_frame df then df
      else df\<lparr>columns := filter (\<lambda>c. \<not> prefix ''Unnamed'' c) (columns df),
              body := map (\<lambda>(i, r). (i, select_cells (\<lambda>c. \<not> prefix ''Unnamed'' c) (columns df) r))
                        (body df)\<rparr>)"

text \<open>Lines 88 to 97: the configured columns whose \<open>str\<close> is not a label of both frames.\<close>

definition missing_index_cols :: "yval \<Rightarrow> string frame \<Rightarrow> string frame \<Rightarrow> yscalar list" where
  "missing_index_cols index_col df1 df2 =
     (case index_col of
        YList ks \<Rightarrow>
          filter (\<lambda>col. str col \<notin> set (columns df1) \<or> str col \<notin> set (columns df2)) ks
      | Scalar k \<Rightarrow>
          (if str k \<notin> set (columns df1) \<or> str k \<notin> set (columns df2) then [k] else []))"

subsection \<open>The pandas operations\<close>

text \<open>
  \<open>df.set_index(keys)\<close>: a key that is not a list is taken as a one-element list; every
  key must be a column label, else \<open>KeyError\<close>. Labels are texts, so a key that is not a
  text is never a label. The key columns leave the columns and become the row index.
\<close>

definition key_labels :: "yval \<Rightarrow> yscalar list" where
  "key_labels index_col = (case index_col of YList ks \<Rightarrow> ks | Scalar k \<Rightarrow> [k])"

definition has_label :: "string list \<Rightarrow> yscalar \<Rightarrow> bool" where
  "has_label cols k = (case k of YStr s \<Rightarrow> s \<in> set cols | _ \<Rightarrow> False)"

definition set_index :: "string frame \<Rightarrow> yval \<Rightarrow> exn + string frame" where
  "set_index df index_col =
     (let keys = key_labels index_col; names = map str keys
      in if \<not> list_all (has_label (columns df)) keys then Inl KeyError
         else Inr \<lparr>columns = filter (\<lambda>c. c \<notin> set names) (columns df),
                   index_names = map Some names,
                   body = map (\<lambda>(i, r). (map (cell_at (columns df) r) names,
                                           select_cells (\<lambda>c. c \<notin> set names) (columns df) r))
                            (body df)\<rparr>)"

text \<open>\<open>df.fillna("")\<close> replaces the missing cells of the data; the index is not touched.\<close>

definition fill :: "cell \<Rightarrow> cell" where
  "fill v = (if v = NaN then Str [] else v)"

definition fillna :: "'l frame \<Rightarrow> 'l frame" where
  "fillna df = df\<lparr>body := map (\<lambda>(i, r). (i, map fill r)) (body df)\<rparr>"

text \<open>\<open>Index.equals\<close>: the same elements in the same order.\<close>

definition equals :: "'a list \<Rightarrow> 'a list \<Rightarrow> bool" where
  "equals a b \<longleftrightarrow> a = b"

text \<open>Line 111: \<open>df1.columns.equals(df2.columns) and df1.index.equals(df2.index)\<close>.\<close>

definition same_shape :: "'l frame \<Rightarrow> 'l frame \<Rightarrow> bool" where
  "same_shape df1 df2 \<longleftrightarrow> equals (columns df1) (columns df2) \<and> equals (index df1) (index df2)"

text \<open>
  \<open>df1.compare(df2, result_names=(name1, name2), keep_shape=False)\<close>. Frames that are
  not identically labelled raise \<open>ValueError\<close>. A cell differs unless both values are
  equal or both are missing. The result keeps the rows and the columns with a differing
  cell; each kept column becomes a pair of columns labelled with the two names, holding
  both values where the cell differs and missing values where it does not.
\<close>

definition differs :: "cell \<Rightarrow> cell \<Rightarrow> bool" where
  "differs a b \<longleftrightarrow> \<not> ((a \<noteq> NaN \<and> a = b) \<or> (a = NaN \<and> b = NaN))"

definition row_differs :: "string list \<Rightarrow> (cell list \<times> cell list) \<times> (cell list \<times> cell list) \<Rightarrow> bool" where
  "row_differs cols p =
     list_ex (\<lambda>c. differs (cell_at cols (snd (fst p)) c) (cell_at cols (snd (snd p)) c)) cols"

definition col_differs ::
  "string list \<Rightarrow> ((cell list \<times> cell list) \<times> (cell list \<times> cell list)) list \<Rightarrow> string \<Rightarrow> bool" where
  "col_differs cols pairs c =
     list_ex (\<lambda>p. differs (cell_at cols (snd (fst p)) c) (cell_at cols (snd (snd p)) c)) pairs"

definition diff_cells :: "string list \<Rightarrow> cell list \<Rightarrow> cell list \<Rightarrow> string \<Rightarrow> cell list" where
  "diff_cells cols r1 r2 c =
     (let a = cell_at cols r1 c; b = cell_at cols r2 c
      in if differs a b then [a, b] else [NaN, NaN])"

definition compare ::
  "string frame \<Rightarrow> string frame \<Rightarrow> string \<Rightarrow> string \<Rightarrow> exn + (string \<times> string) frame" where
  "compare df1 df2 name1 name2 =
     (if \<not> same_shape df1 df2 then Inl ValueError
      else
        let cols = columns df1;
            pairs = zip (body df1) (body df2);
            changed = filter (col_differs cols pairs) cols
        in Inr \<lparr>columns = concat (map (\<lambda>c. [(c, name1), (c, name2)]) changed),
                index_names = index_names df1,
                body = map (\<lambda>p. (fst (fst p),
                                   concat (map (diff_cells cols (snd (fst p)) (snd (snd p))) changed)))
                         (filter (row_differs cols) pairs)\<rparr>)"

text \<open>
  \<open>df.reset_index()\<close>: the index levels become the first columns and the frame gets a
  fresh default index. An unnamed index is called \<open>index\<close>, or \<open>level_0\<close> when a column
  \<open>index\<close> exists. Inserting a label that is already a column raises \<open>ValueError\<close>.
  For two-level columns the new label is the pair of the name and the empty text, and
  \<open>"index" in df\<close> looks at the first level; \<open>mk\<close> and \<open>outer\<close> stand for both.
\<close>

definition reset_index :: "(string \<Rightarrow> 'l) \<Rightarrow> ('l \<Rightarrow> string) \<Rightarrow> 'l frame \<Rightarrow> exn + 'l frame" where
  "reset_index mk outer df =
     (let default = (if ''index'' \<notin> set (map outer (columns df)) then ''index'' else ''level_0'');
          names = map (\<lambda>n. case n of Some s \<Rightarrow> s | None \<Rightarrow> default) (index_names df);
          labels = map mk names
      in if \<not> distinct labels \<or> list_ex (\<lambda>l. l \<in> set (columns df)) labels then Inl ValueError
         else Inr \<lparr>columns = labels @ columns df,
                   index_names = [None],
                   body = zip (range_index (length (body df))) (map (\<lambda>(i, r). i @ r) (body df))\<rparr>)"

text \<open>Line 118: \<open>'_'.join([str(x) for x in c if str(x) != ""])\<close>.\<close>

fun join :: "string list \<Rightarrow> string" where
  "join [] = []"
| "join [x] = x"
| "join (x # y # ys) = x @ ''_'' @ join (y # ys)"

definition flatten_label :: "string \<times> string \<Rightarrow> string" where
  "flatten_label c = join (filter (\<lambda>x. x \<noteq> []) [fst c, snd c])"

text \<open>
  \<open>pd.merge(left, right, on=on, how="outer", indicator=True)\<close>. Every key must be a
  column of both frames; the indicator's names must be free; a column of both frames
  that is not a key gets the suffix \<open>_x\<close> on the left and \<open>_y\<close> on the right, and the
  resulting labels must be distinct. A left row pairs with every right row of equal key
  (\<open>both\<close>); a row with no partner is kept once, the other side's cells missing
  (\<open>left_only\<close>, \<open>right_only\<close>). pandas orders the joined rows by key; the model keeps
  them as a multiset. Failures that depend on column dtypes are outside the model.
\<close>

datatype indicator = left_only | right_only | both

record merged =
  mcolumns :: "string list"
  mrows :: "(cell list \<times> indicator) multiset"

definition join_key :: "string list \<Rightarrow> string list \<Rightarrow> cell list \<Rightarrow> cell list" where
  "join_key on cols r = map (cell_at cols r) on"

definition merge :: "string frame \<Rightarrow> string frame \<Rightarrow> string list \<Rightarrow> exn + merged" where
  "merge left right on =
     (let lc = columns left; rc = columns right;
          overlap = (\<lambda>c. c \<notin> set on \<and> c \<in> set lc \<and> c \<in> set rc);
          lcols = map (\<lambda>c. if overlap c then c @ ''_x'' else c) lc;
          rcols = map (\<lambda>c. if overlap c then c @ ''_y'' else c) (filter (\<lambda>c. c \<notin> set on) rc);
          rest = select_cells (\<lambda>c. c \<notin> set on) rc
      in if list_ex (\<lambda>k. k \<notin> set lc \<or> k \<notin> set rc) on then Inl KeyError
         else if list_ex (\<lambda>c. c \<in> set lc \<or> c \<in> set rc)
                   [''_left_indicator'', ''_right_indicator'', ''_merge''] then Inl ValueError
         else if \<not> distinct (lcols @ rcols) then Inl MergeError
         else Inr \<lparr>mcolumns = lcols @ rcols,
                   mrows = mset
                     (concat (map (\<lambda>l.
                        let partners = filter (\<lambda>r. join_key on rc r = join_key on lc l) (rows right)
                        in if partners = [] then [(l @ map (\<lambda>c. NaN) rcols, left_only)]
                           else map (\<lambda>r. (l @ rest r, both)) partners) (rows left))
                      @ map (\<lambda>r. (map (\<lambda>c. if c \<in> set on then cell_at rc r c else NaN) lc @ rest r,
                                   right_only))
                          (filter (\<lambda>r. \<not> list_ex (\<lambda>l. join_key on lc l = join_key on rc r) (rows left))
                             (rows right)))\<rparr>)"

subsection \<open>\<open>compare_excels\<close>\<close>

text \<open>
  A workbook as the program sees it: its sheet names, and what \<open>pd.read_excel\<close> gives
  for a sheet and a \<open>skiprows\<close> count (a table, or an exception).
\<close>

record workbook =
  sheet_names :: "string list"
  read_excel :: "string \<Rightarrow> int \<Rightarrow> exn + table"

text \<open>
  One sheet written to the output workbook by \<open>to_excel(..., index=False)\<close>: its name,
  the header and the rows (in order for a cell diff, a multiset for a merge).
\<close>

datatype content = Rows "cell list list" | Bag "cell list multiset"

record out_section =
  sname :: string
  header :: "string list"
  content :: content

text \<open>What the loop body does with one sheet, when it raises nothing.\<close>

datatype outcome =
    read_error exn
  | skip_missing "yscalar list"
  | no_differences_same
  | merge_error exn
  | no_differences_mismatch
  | wrote out_section

text \<open>
  Lines 138 to 142: the column \<open>Different\<close> is assigned (replacing a column of that
  name, else appended) and \<open>_merge\<close> is dropped.
\<close>

definition different_header :: "string list \<Rightarrow> string list" where
  "different_header cols = (if ''Different'' \<in> set cols then cols else cols @ [''Different''])"

definition different_row :: "string list \<Rightarrow> string \<Rightarrow> string \<Rightarrow> cell list \<times> indicator \<Rightarrow> cell list" where
  "different_row cols name1 name2 ri =
     (let label = Str ((if snd ri = left_only then name1 else name2) @ '' only'')
      in if ''Different'' \<in> set cols
         then map (\<lambda>(c, v). if c = ''Different'' then label else v) (zip cols (fst ri))
         else fst ri @ [label])"

text \<open>Lines 112 to 121: the branch for frames of the same shape.\<close>

definition cell_diff :: "string \<Rightarrow> string \<Rightarrow> string \<Rightarrow> string frame \<Rightarrow> string frame \<Rightarrow> exn + outcome" where
  "cell_diff name1 name2 sheet df1 df2 =
     (case compare df1 df2 name1 name2 of
        Inl e \<Rightarrow> Inl e
      | Inr diff \<Rightarrow>
          if empty_frame diff then Inr no_differences_same
          else (case reset_index (\<lambda>n. (n, [])) fst diff of
                  Inl e \<Rightarrow> Inl e
                | Inr d \<Rightarrow>
                    Inr (wrote \<lparr>sname = sheet @ ''_same'',
                                header = map flatten_label (columns d),
                                content = Rows (rows d)\<rparr>)))"

text \<open>Lines 124 to 145: the branch for frames of different shape.\<close>

definition on_keys :: "yval \<Rightarrow> string frame \<Rightarrow> string frame \<Rightarrow> string list" where
  "on_keys index_col df1r df2r =
     (if truthy index_col then map str (key_labels index_col)
      else sorted_list_of_set (set (columns df1r) \<inter> set (columns df2r)))"

definition row_alignment ::
  "string \<Rightarrow> string \<Rightarrow> string \<Rightarrow> yval \<Rightarrow> string frame \<Rightarrow> string frame \<Rightarrow> exn + outcome" where
  "row_alignment name1 name2 sheet index_col df1 df2 =
     (case reset_index id id df1 of
        Inl e \<Rightarrow> Inl e
      | Inr df1r \<Rightarrow>
     (case reset_index id id df2 of
        Inl e \<Rightarrow> Inl e
      | Inr df2r \<Rightarrow>
     (case merge df1r df2r (on_keys index_col df1r df2r) of
        Inl e \<Rightarrow> Inr (merge_error e)
      | Inr m \<Rightarrow>
          let kept = filter_mset (\<lambda>ri. snd ri \<noteq> both) (mrows m)
          in if kept = {#} then Inr no_differences_mismatch
             else Inr (wrote \<lparr>sname = sheet @ ''_diff'',
                              header = different_header (mcolumns m),
                              content = Bag (image_mset
                                (different_row (mcolumns m) name1 name2) kept)\<rparr>))))"

text \<open>Line 111, on the two frames after \<open>fillna\<close>.\<close>

definition diff_frames ::
  "string \<Rightarrow> string \<Rightarrow> string \<Rightarrow> yval \<Rightarrow> string frame \<Rightarrow> string frame \<Rightarrow> exn + outcome" where
  "diff_frames name1 name2 sheet index_col df1 df2 =
     (if same_shape df1 df2 then cell_diff name1 name2 sheet df1 df2
      else row_alignment name1 name2 sheet index_col df1 df2)"

text \<open>Lines 88 to 108: the key check, \<open>set_index\<close> and \<open>fillna\<close>.\<close>

definition index_frames ::
  "yval \<Rightarrow> string frame \<Rightarrow> string frame \<Rightarrow> exn + (yscalar list + string frame \<times> string frame)" where
  "index_frames index_col df1 df2 =
     (if truthy index_col then
        (let missing_cols = missing_index_cols index_col df1 df2
         in if missing_cols \<noteq> [] then Inr (Inl missing_cols)
            else (case set_index df1 index_col of
                    Inl e \<Rightarrow> Inl e
                  | Inr k1 \<Rightarrow>
                 (case set_index df2 index_col of
                    Inl e \<Rightarrow> Inl e
                  | Inr k2 \<Rightarrow> Inr (Inr (fillna k1, fillna k2)))))
      else Inr (Inr (fillna df1, fillna df2)))"

text \<open>
  The body of the loop over the common sheets (lines 70 to 145). \<open>Inl\<close> is an exception
  that leaves the loop; \<open>Inr\<close> is the sheet's outcome, after which the loop goes on.
\<close>

definition process_sheet ::
  "workbook \<Rightarrow> workbook \<Rightarrow> string \<Rightarrow> string \<Rightarrow> int \<Rightarrow> index_map \<Rightarrow> string \<Rightarrow> exn + outcome" where
  "process_sheet xls1 xls2 name1 name2 skiprows im sheet =
     (case read_excel xls1 sheet skiprows of
        Inl e \<Rightarrow> Inr (read_error e)
      | Inr t1 \<Rightarrow>
     (case read_excel xls2 sheet skiprows of
        Inl e \<Rightarrow> Inr (read_error e)
      | Inr t2 \<Rightarrow>
          let df1 = drop_unnamed (DataFrame t1);
              df2 = drop_unnamed (DataFrame t2);
              index_col = resolve_index_col im sheet
          in (case index_frames index_col df1 df2 of
                Inl e \<Rightarrow> Inl e
              | Inr (Inl missing_cols) \<Rightarrow> Inr (skip_missing missing_cols)
              | Inr (Inr (f1, f2)) \<Rightarrow> diff_frames name1 name2 sheet index_col f1 f2)))"

fun compare_loop ::
  "(string \<Rightarrow> exn + outcome) \<Rightarrow> string list \<Rightarrow> (string \<times> outcome) list \<Rightarrow> exn + (string \<times> outcome) list" where
  "compare_loop step [] log = Inr log"
| "compare_loop step (sheet # todo) log =
     (case step sheet of
        Inl e \<Rightarrow> Inl e
      | Inr out \<Rightarrow> compare_loop step todo (log @ [(sheet, out)]))"

text \<open>
  The run: the sheets reported as present in one workbook only, and the outcome of every
  compared sheet in order. The sections of the output workbook are the written ones.
\<close>

record report =
  only1 :: "string list"
  only2 :: "string list"
  outcomes :: "(string \<times> outcome) list"

definition sections :: "report \<Rightarrow> out_section list" where
  "sections r = concat (map (\<lambda>(sheet, out). case out of wrote s \<Rightarrow> [s] | _ \<Rightarrow> []) (outcomes r))"

definition compare_excels ::
  "workbook \<Rightarrow> workbook \<Rightarrow> string \<Rightarrow> string \<Rightarrow> int \<Rightarrow> string option \<Rightarrow> index_map \<Rightarrow> exn + report" where
  "compare_excels xls1 xls2 name1 name2 skiprows doc_prefix im =
     (let common = common_sheets doc_prefix (sheet_names xls1) (sheet_names xls2)
      in case compare_loop (process_sheet xls1 xls2 name1 name2 skiprows im) common [] of
           Inl e \<Rightarrow> Inl e
         | Inr log \<Rightarrow>
             Inr \<lparr>only1 = only_sheets doc_prefix (sheet_names xls1) (sheet_names xls2),
                  only2 = only_sheets doc_prefix (sheet_names xls2) (sheet_names xls1),
                  outcomes = log\<rparr>)"

subsection \<open>Example inputs\<close>

text \<open>Two workbooks with no sheet in common once the documentation sheets are left out.\<close>

definition book_extra :: workbook where
  "book_extra = \<lparr>sheet_names = [''Extra'', ''(DOC)Notes''], read_excel = (\<lambda>s k. Inl ReadError)\<rparr>"

definition book_other :: workbook where
  "book_other = \<lparr>sheet_names = [''(DOC)Notes'', ''Other''], read_excel = (\<lambda>s k. Inl ReadError)\<rparr>"

text \<open>The scenario of the sheet \<open>Items\<close> with the columns \<open>id\<close> and \<open>qty\<close>.\<close>

definition items_v1 :: workbook where
  "items_v1 = \<lparr>sheet_names = [''Items''],
     read_excel = (\<lambda>s k. if s = ''Items''
       then Inr \<lparr>tcolumns = [''id'', ''qty''], trows = [[Num 1, Num 5], [Num 2, Num 3]]\<rparr>
       else Inl ReadError)\<rparr>"

definition items_v2 :: workbook where
  "items_v2 = \<lparr>sheet_names = [''Items''],
     read_excel = (\<lambda>s k. if s = ''Items''
       then Inr \<lparr>tcolumns = [''id'', ''qty''], trows = [[Num 1, Num 5], [Num 2, Num 4]]\<rparr>
       else Inl ReadError)\<rparr>"

definition items_key :: index_map where
  "items_key = load_index_map (Some [(YStr ''Items'', Scalar (YStr ''id''))])"

definition items_empty_key :: index_map where
  "items_empty_key = load_index_map (Some [(YStr ''Items'', YList [])])"


text \<open>
  The sheet \<open>Orders\<close> twice with the same cells, the columns and the rows in another
  order, and the two frames that \<open>set_index("id")\<close> and \<open>fillna\<close> make of them.
\<close>

definition orders_left :: table where
  "orders_left = \<lparr>tcolumns = [''id'', ''a'', ''b''],
     trows = [[Num 1, Str ''x'', Str ''y''], [Num 2, Str ''z'', Str ''w'']]\<rparr>"

definition orders_right :: table where
  "orders_right = \<lparr>tcolumns = [''id'', ''b'', ''a''],
     trows = [[Num 2, Str ''w'', Str ''z''], [Num 1, Str ''y'', Str ''x'']]\<rparr>"

definition orders_left_frame :: "string frame" where
  "orders_left_frame = \<lparr>columns = [''a'', ''b''], index_names = [Some ''id''],
     body = [([Num 1], [Str ''x'', Str ''y'']), ([Num 2], [Str ''z'', Str ''w''])]\<rparr>"

definition orders_right_frame :: "string frame" where
  "orders_right_frame = \<lparr>columns = [''b'', ''a''], index_names = [Some ''id''],
     body = [([Num 2], [Str ''w'', Str ''z'']), ([Num 1], [Str ''y'', Str ''x''])]\<rparr>"

text \<open>A sheet with a placeholder column and empty cells.\<close>

definition notes_table :: table where
  "notes_table = \<lparr>tcolumns = [''id'', ''Unnamed: 1'', ''note''],
     trows = [[Num 1, NaN, Str ''ok''], [Num 2, Str ''stray'', NaN]]\<rparr>"

section \<open>Properties\<close>

subsection \<open>Sheet sets\<close>

lemma finite_filter_sheets: "finite (filter_sheets p ns)"
  by (simp add: filter_sheets_def)

lemma filter_sheets_iff: "s \<in> filter_sheets p ns \<longleftrightarrow> s \<in> set ns \<and> \<not> excluded p s"
  by (auto simp: filter_sheets_def)

lemma compare_loop_sheets:
  "compare_loop step todo log = Inr log' \<Longrightarrow> map fst log' = map fst log @ todo"
proof (induction todo arbitrary: log)
  case Nil
  then show ?case by simp
next
  case (Cons sheet todo)
  then show ?case by (auto split: sum.splits)
qed

lemma compare_excels_sheets:
  assumes "compare_excels xls1 xls2 name1 name2 skiprows p im = Inr r"
  shows "map fst (outcomes r) = common_sheets p (sheet_names xls1) (sheet_names xls2)"
    and "only1 r = only_sheets p (sheet_names xls1) (sheet_names xls2)"
    and "only2 r = only_sheets p (sheet_names xls2) (sheet_names xls1)"
  using assms compare_loop_sheets[of "process_sheet xls1 xls2 name1 name2 skiprows im" _ "[]"]
  by (auto simp: compare_excels_def Let_def split: sum.splits)

text \<open>
  Claim C6. The sheets to compare are the sorted names present in both workbooks that do
  not start with the exclusion prefix; the sheets reported as unique to a workbook are
  the sorted names left in it and absent from the other. An empty or absent prefix
  excludes nothing. \<open>(DOC)Notes\<close> is never compared under the prefix \<open>(DOC)\<close>. A run
  that returns has processed exactly the common sheets, none of the unique ones, and a
  run with no common sheet returns a report without sections.
\<close>

theorem sheet_set_reconciler:
  "set (common_sheets p nsa nsb) = {s \<in> set nsa \<inter> set nsb. \<not> excluded p s}
   \<and> set (only_sheets p nsa nsb) = {s \<in> set nsa. \<not> excluded p s} - set nsb
   \<and> set (only_sheets p nsb nsa) = {s \<in> set nsb. \<not> excluded p s} - set nsa
   \<and> sorted (common_sheets p nsa nsb) \<and> distinct (common_sheets p nsa nsb)
   \<and> sorted (only_sheets p nsa nsb) \<and> distinct (only_sheets p nsa nsb)
   \<and> (excluded p s \<longleftrightarrow> (\<exists>q. p = Some q \<and> q \<noteq> [] \<and> prefix q s))
   \<and> ''(DOC)Notes'' \<notin> set (common_sheets (Some ''(DOC)'') nsa nsb)
   \<and> (compare_excels xlsa xlsb namea nameb skiprows p im = Inr r \<longrightarrow>
        map fst (outcomes r) = common_sheets p (sheet_names xlsa) (sheet_names xlsb)
        \<and> only1 r = only_sheets p (sheet_names xlsa) (sheet_names xlsb)
        \<and> only2 r = only_sheets p (sheet_names xlsb) (sheet_names xlsa)
        \<and> set (only1 r @ only2 r) \<inter> fst ` set (outcomes r) = {})
   \<and> (common_sheets p (sheet_names xlsa) (sheet_names xlsb) = [] \<longrightarrow>
        (\<exists>r. compare_excels xlsa xlsb namea nameb skiprows p im = Inr r \<and> sections r = []))"
proof -
  have a: "set (common_sheets p nsa nsb) = {s \<in> set nsa \<inter> set nsb. \<not> excluded p s}"
    by (auto simp: common_sheets_def finite_filter_sheets filter_sheets_iff)
  have b: "set (only_sheets p m1 m2) = {s \<in> set m1. \<not> excluded p s} - set m2" for m1 m2
    by (auto simp: only_sheets_def finite_filter_sheets filter_sheets_iff)
  have c: "sorted (common_sheets p nsa nsb) \<and> distinct (common_sheets p nsa nsb)"
    by (simp add: common_sheets_def)
  have d: "sorted (only_sheets p nsa nsb) \<and> distinct (only_sheets p nsa nsb)"
    by (simp add: only_sheets_def)
  have e: "excluded p s \<longleftrightarrow> (\<exists>q. p = Some q \<and> q \<noteq> [] \<and> prefix q s)"
    by (simp add: excluded_def split: option.splits)
  have f: "''(DOC)Notes'' \<notin> set (common_sheets (Some ''(DOC)'') nsa nsb)"
    by (simp add: common_sheets_def finite_filter_sheets filter_sheets_iff excluded_def)
  have g: "map fst (outcomes r) = common_sheets p (sheet_names xlsa) (sheet_names xlsb)
        \<and> only1 r = only_sheets p (sheet_names xlsa) (sheet_names xlsb)
        \<and> only2 r = only_sheets p (sheet_names xlsb) (sheet_names xlsa)
        \<and> set (only1 r @ only2 r) \<inter> fst ` set (outcomes r) = {}"
    if h: "compare_excels xlsa xlsb namea nameb skiprows p im = Inr r"
  proof -
    note s = compare_excels_sheets[OF h]
    have "fst ` set (outcomes r) = set (map fst (outcomes r))" by simp
    also have "\<dots> = set (common_sheets p (sheet_names xlsa) (sheet_names xlsb))"
      using s(1) by simp
    finally have "set (only1 r @ only2 r) \<inter> fst ` set (outcomes r) = {}"
      using s(2,3)
      by (auto simp: common_sheets_def only_sheets_def finite_filter_sheets)
    with s show ?thesis by simp
  qed
  have i: "\<exists>r. compare_excels xlsa xlsb namea nameb skiprows p im = Inr r \<and> sections r = []"
    if "common_sheets p (sheet_names xlsa) (sheet_names xlsb) = []"
    using that by (simp add: compare_excels_def sections_def)
  from a b[of nsa nsb] b[of nsb nsa] c d e f g i show ?thesis by blast
qed

theorem sheet_set_reconciler_witness:
  "common_sheets (Some ''(DOC)'') (sheet_names book_extra) (sheet_names book_other) = []
   \<and> (\<exists>r. compare_excels book_extra book_other ''v1'' ''v2'' 3 (Some ''(DOC)'')
             (load_index_map None) = Inr r
          \<and> sections r = [] \<and> only1 r = [''Extra''] \<and> only2 r = [''Other''])"
proof -
  have c: "common_sheets (Some ''(DOC)'') (sheet_names book_extra) (sheet_names book_other) = []"
    by code_simp
  have o1: "only_sheets (Some ''(DOC)'') (sheet_names book_extra) (sheet_names book_other) = [''Extra'']"
    by code_simp
  have o2: "only_sheets (Some ''(DOC)'') (sheet_names book_other) (sheet_names book_extra) = [''Other'']"
    by code_simp
  note t = sheet_set_reconciler[where p = "Some ''(DOC)''" and xlsa = book_extra
      and xlsb = book_other and namea = "''v1''" and nameb = "''v2''" and skiprows = 3
      and im = "load_index_map None"]
  from t[THEN conjunct2, THEN conjunct2, THEN conjunct2, THEN conjunct2, THEN conjunct2, THEN conjunct2, THEN conjunct2, THEN conjunct2, THEN conjunct2, THEN conjunct2]
  have "common_sheets (Some ''(DOC)'') (sheet_names book_extra) (sheet_names book_other) = [] \<longrightarrow>
     (\<exists>r. compare_excels book_extra book_other ''v1'' ''v2'' 3 (Some ''(DOC)'')
             (load_index_map None) = Inr r \<and> sections r = [])"
    .
  with c obtain r where r: "compare_excels book_extra book_other ''v1'' ''v2'' 3 (Some ''(DOC)'')
             (load_index_map None) = Inr r" "sections r = []"
    by auto
  from t[where r = r, THEN conjunct2, THEN conjunct2, THEN conjunct2, THEN conjunct2, THEN conjunct2, THEN conjunct2, THEN conjunct2, THEN conjunct2, THEN conjunct2, THEN conjunct1] have "compare_excels book_extra book_other ''v1'' ''v2'' 3 (Some ''(DOC)'')
             (load_index_map None) = Inr r \<longrightarrow>
        map fst (outcomes r) = common_sheets (Some ''(DOC)'') (sheet_names book_extra) (sheet_names book_other)
        \<and> only1 r = only_sheets (Some ''(DOC)'') (sheet_names book_extra) (sheet_names book_other)
        \<and> only2 r = only_sheets (Some ''(DOC)'') (sheet_names book_other) (sheet_names book_extra)
        \<and> set (only1 r @ only2 r) \<inter> fst ` set (outcomes r) = {}"
    .
  with r(1) have "only1 r = [''Extra'']" "only2 r = [''Other'']"
    by (simp_all add: o1 o2)
  with c r show ?thesis by blast
qed

subsection \<open>Key lookup\<close>






lemma empty_config: "resolve_index_col (load_index_map None) sheet = Scalar YNull"
  "resolve_index_col (load_index_map (Some [])) sheet = Scalar YNull"
  by (simp_all add: resolve_index_col_def load_index_map_def dict_get_def)




subsection \<open>A false key\<close>

lemma falsy_iff:
  "\<not> truthy v \<longleftrightarrow> v \<in> {Scalar YNull, Scalar (YBool False), Scalar (YInt 0), Scalar (YStr []), YList []}"
  by (cases v rule: truthy.cases) auto

lemma falsy_index_frames:
  "\<not> truthy ic \<Longrightarrow> index_frames ic df1 df2 = Inr (Inr (fillna df1, fillna df2))"
  by (simp add: index_frames_def)

lemma falsy_diff_frames:
  "\<not> truthy ic \<Longrightarrow> diff_frames n1 n2 sheet ic f1 f2 = diff_frames n1 n2 sheet (Scalar YNull) f1 f2"
proof -
  assume "\<not> truthy ic"
  then have k: "on_keys ic = on_keys (Scalar YNull)"
    by (intro ext) (simp add: on_keys_def)
  show ?thesis
    unfolding diff_frames_def row_alignment_def k ..
qed

text \<open>
  Claim C10. When the resolved key is false in Python (an empty list, an empty text, a
  null, and likewise a zero or a false boolean), the sheet is processed exactly as with
  an empty configuration: no key column is installed and a merge joins on the sorted
  common column names.
\<close>

theorem falsy_key_is_absent:
  assumes "\<not> truthy (resolve_index_col im sheet)"
  shows "process_sheet xlsa xlsb namea nameb skiprows im sheet =
           process_sheet xlsa xlsb namea nameb skiprows (load_index_map None) sheet
         \<and> index_frames (resolve_index_col im sheet) dfa dfb = Inr (Inr (fillna dfa, fillna dfb))
         \<and> on_keys (resolve_index_col im sheet) dfar dfbr =
             sorted_list_of_set (set (columns dfar) \<inter> set (columns dfbr))
         \<and> \<not> truthy (YList []) \<and> \<not> truthy (Scalar (YStr [])) \<and> \<not> truthy (Scalar YNull)"
proof -
  have a: "index_frames (resolve_index_col im sheet) = index_frames (Scalar YNull)"
    using assms by (intro ext) (simp add: index_frames_def)
  have b: "diff_frames namea nameb sheet (resolve_index_col im sheet) =
           diff_frames namea nameb sheet (Scalar YNull)"
    by (intro ext) (rule falsy_diff_frames[OF assms])
  have "process_sheet xlsa xlsb namea nameb skiprows im sheet =
        process_sheet xlsa xlsb namea nameb skiprows (load_index_map None) sheet"
    unfolding process_sheet_def Let_def a b empty_config ..
  moreover have "index_frames (resolve_index_col im sheet) dfa dfb = Inr (Inr (fillna dfa, fillna dfb))"
    by (rule falsy_index_frames[OF assms])
  moreover have "on_keys (resolve_index_col im sheet) dfar dfbr =
             sorted_list_of_set (set (columns dfar) \<inter> set (columns dfbr))"
    using assms by (simp add: on_keys_def)
  ultimately show ?thesis by simp
qed


theorem falsy_key_is_absent_witness:
  "\<not> truthy (resolve_index_col items_empty_key ''Items'')
   \<and> process_sheet items_v1 items_v2 ''v1'' ''v2'' 3 items_empty_key ''Items'' =
       process_sheet items_v1 items_v2 ''v1'' ''v2'' 3 (load_index_map None) ''Items''"
proof -
  have f: "\<not> truthy (resolve_index_col items_empty_key ''Items'')"
    by code_simp
  from falsy_key_is_absent[OF f, of items_v1 items_v2 "''v1''" "''v2''" 3] f
  show ?thesis by simp
qed

subsection \<open>The shape test\<close>

lemma orders_frames:
  "index_frames (Scalar (YStr ''id'')) (drop_unnamed (DataFrame orders_left)) (drop_unnamed (DataFrame orders_right)) =
     Inr (Inr (orders_left_frame, orders_right_frame))"
  by code_simp

text \<open>
  Claim C3, as stated, fails: the two \<open>Orders\<close> frames have the same set of column
  names and the same set of row identities, in another order, and they are not of the
  same shape for the program, which hands them to the row alignment (the cell diff
  would raise on them).
\<close>

theorem shape_order_counterexample:
  "index_frames (Scalar (YStr ''id'')) (drop_unnamed (DataFrame orders_left))
       (drop_unnamed (DataFrame orders_right)) =
     Inr (Inr (orders_left_frame, orders_right_frame))
   \<and> set (columns orders_left_frame) = set (columns orders_right_frame)
   \<and> set (index orders_left_frame) = set (index orders_right_frame)
   \<and> \<not> same_shape orders_left_frame orders_right_frame
   \<and> diff_frames ''v1'' ''v2'' ''Orders'' (Scalar (YStr ''id'')) orders_left_frame orders_right_frame =
       row_alignment ''v1'' ''v2'' ''Orders'' (Scalar (YStr ''id'')) orders_left_frame orders_right_frame
   \<and> cell_diff ''v1'' ''v2'' ''Orders'' orders_left_frame orders_right_frame = Inl ValueError
   \<and> diff_frames ''v1'' ''v2'' ''Orders'' (Scalar (YStr ''id'')) orders_left_frame orders_right_frame =
       Inr no_differences_mismatch"
  by code_simp

text \<open>
  Claim C3, amended. Two frames go to the cell diff exactly when their column labels are
  the same sequence and their row identities are the same sequence (the same elements
  in the same order); every other pair goes to the row alignment.
\<close>

theorem shape_classifier:
  "(same_shape dfa dfb \<longleftrightarrow> columns dfa = columns dfb \<and> index dfa = index dfb)
   \<and> diff_frames namea nameb sheet ic dfa dfb =
       (if columns dfa = columns dfb \<and> index dfa = index dfb
        then cell_diff namea nameb sheet dfa dfb
        else row_alignment namea nameb sheet ic dfa dfb)"
  by (simp add: same_shape_def equals_def diff_frames_def)

theorem shape_classifier_witness:
  "diff_frames ''v1'' ''v2'' ''Orders'' (Scalar (YStr ''id'')) orders_left_frame orders_left_frame =
     cell_diff ''v1'' ''v2'' ''Orders'' orders_left_frame orders_left_frame
   \<and> diff_frames ''v1'' ''v2'' ''Orders'' (Scalar (YStr ''id'')) orders_left_frame orders_right_frame =
     row_alignment ''v1'' ''v2'' ''Orders'' (Scalar (YStr ''id'')) orders_left_frame orders_right_frame"
proof -
  have ne: "columns orders_left_frame \<noteq> columns orders_right_frame"
    by code_simp
  from shape_classifier[of orders_left_frame orders_left_frame, THEN conjunct2]
       shape_classifier[of orders_left_frame orders_right_frame, THEN conjunct2] ne
  show ?thesis by simp
qed

subsection \<open>Normalization\<close>

lemma fill_fill: "fill (fill v) = fill v"
  by (simp add: fill_def)

lemma fillna_fillna: "fillna (fillna df) = fillna df"
  by (simp add: fillna_def fill_fill case_prod_unfold comp_def)

lemma fillna_columns: "columns (fillna df) = columns df"
  by (simp add: fillna_def)

lemma fillna_empty: "empty_frame (fillna df) = empty_frame df"
  by (simp add: fillna_def empty_frame_def)

lemma length_filter_zip:
  "length (filter (\<lambda>(c, v). P c) (zip cols r)) \<le> length (filter P cols)"
proof (induction cols arbitrary: r)
  case Nil
  then show ?case by simp
next
  case (Cons c cols)
  then show ?case by (cases r) (auto intro: le_SucI)
qed

lemma select_cells_length: "length (select_cells P cols r) \<le> length (filter P cols)"
  by (simp add: select_cells_def length_filter_zip)

lemma select_cells_all:
  assumes "\<forall>c \<in> set cols. P c" "length r \<le> length cols"
  shows "select_cells P cols r = r"
proof -
  have "filter (\<lambda>(c, v). P c) (zip cols r) = zip cols r"
    using assms(1) by (auto simp: filter_id_conv dest: set_zip_leftD)
  then show ?thesis
    using assms(2) by (simp add: select_cells_def map_snd_zip_take)
qed

lemma select_cells_again:
  "select_cells P (filter P cols) (map g (select_cells P cols r)) = map g (select_cells P cols r)"
  by (rule select_cells_all) (simp_all add: select_cells_length)

lemma drop_unnamed_fillna_drop:
  "drop_unnamed (fillna (drop_unnamed df)) = fillna (drop_unnamed df)"
proof (cases "empty_frame df")
  case True
  then have "drop_unnamed df = df" by (simp add: drop_unnamed_def)
  moreover have "drop_unnamed (fillna df) = fillna df"
    using True by (simp add: drop_unnamed_def fillna_empty)
  ultimately show ?thesis by simp
next
  case False
  let ?P = "\<lambda>c. \<not> prefix ''Unnamed'' c"
  let ?d = "fillna (drop_unnamed df)"
  show ?thesis
  proof (cases "empty_frame ?d")
    case True
    then show ?thesis by (simp add: drop_unnamed_def)
  next
    case ne: False
    have cols: "columns ?d = filter ?P (columns df)"
      using False by (simp add: drop_unnamed_def fillna_def)
    have body: "body ?d = map (\<lambda>(i, r). (i, map fill (select_cells ?P (columns df) r))) (body df)"
      using False by (simp add: drop_unnamed_def fillna_def case_prod_unfold comp_def)
    have "map (\<lambda>(i, r). (i, select_cells ?P (columns ?d) r)) (body ?d) = body ?d"
      unfolding cols body
      by (simp add: case_prod_unfold comp_def select_cells_again)
    moreover have "filter ?P (columns ?d) = columns ?d"
      by (simp add: cols)
    ultimately show ?thesis
      using ne by (simp add: drop_unnamed_def)
  qed
qed

text \<open>
  Claim C9. Dropping the placeholder columns and filling the missing cells a second time
  changes nothing.
\<close>

theorem normalization_idempotent:
  "fillna (drop_unnamed (fillna (drop_unnamed df))) = fillna (drop_unnamed df)"
  by (simp add: drop_unnamed_fillna_drop fillna_fillna)

theorem normalization_idempotent_witness:
  "fillna (drop_unnamed (fillna (drop_unnamed (DataFrame notes_table)))) =
     \<lparr>columns = [''id'', ''note''], index_names = [None],
      body = [([Num 0], [Num 1, Str ''ok'']), ([Num 1], [Num 2, Str ''''])]\<rparr>"
proof -
  have "fillna (drop_unnamed (DataFrame notes_table)) =
     \<lparr>columns = [''id'', ''note''], index_names = [None],
      body = [([Num 0], [Num 1, Str ''ok'']), ([Num 1], [Num 2, Str ''''])]\<rparr>"
    by code_simp
  with normalization_idempotent[of "DataFrame notes_table"] show ?thesis by simp
qed

end
